theory Spec2Isabelle
  imports Main
begin

section \<open>JavaScript values\<close>

text \<open>
  The values the library handles: what \<open>JSON.parse\<close> returns (null, booleans, numbers,
  strings, arrays, objects), \<open>undefined\<close> (a missing property or argument), functions
  (callbacks, and the methods an object inherits) and the \<open>Blob\<close> of a response.
  A string is a list of characters (the code units the source indexes). An object is the
  list of its own properties in insertion order; a lookup takes the first entry of a name.
  A number is read by this code only for being zero or not (its truth value) and for its
  decimal text, so it is an \<open>int\<close>. A function is known by its name.
\<close>

datatype jsval =
    JUndef
  | JNull
  | JBool bool
  | JNum int
  | JStr string
  | JArr "jsval list"
  | JObj "(string \<times> jsval) list"
  | JFun string
  | JBlob string

text \<open>
  What the source raises: its four \<open>new Error(...)\<close> messages, and the runtime's own
  exceptions (\<open>TypeError\<close> on a property of null or undefined or a call of a
  non-function, \<open>SyntaxError\<close> of \<open>JSON.parse\<close>, \<open>URIError\<close> of
  \<open>encodeURIComponent\<close>, a rejected \<open>fetch\<close>).
\<close>

datatype error =
    InvalidURL          \<comment> \<open>\<open>"Invalid Google Sheets URL"\<close>\<close>
  | InvalidOptions      \<comment> \<open>\<open>"Options parameter must be an object"\<close>\<close>
  | UnsupportedFormat   \<comment> \<open>\<open>"Unsupported format. Use: csv, tsv, pdf, or xlsx."\<close>\<close>
  | HTTPError string    \<comment> \<open>\<open>`HTTP Error ${res.status}: ${res.statusText}`\<close>, thrown by the export\<close>
  | InvalidData         \<comment> \<open>\<open>"Given data parameter is not valid or available."\<close>\<close>
  | TypeError
  | SyntaxError
  | URIError
  | NetworkError

text \<open>\<open>typeof v\<close>.\<close>

fun js_typeof :: "jsval \<Rightarrow> string" where
  "js_typeof JUndef = ''undefined''"
| "js_typeof JNull = ''object''"
| "js_typeof (JBool b) = ''boolean''"
| "js_typeof (JNum n) = ''number''"
| "js_typeof (JStr s) = ''string''"
| "js_typeof (JArr xs) = ''object''"
| "js_typeof (JObj kvs) = ''object''"
| "js_typeof (JFun f) = ''function''"
| "js_typeof (JBlob b) = ''object''"

text \<open>The truth value of \<open>v\<close> in \<open>!v\<close>, \<open>v ? a : b\<close>, \<open>if (v)\<close> and \<open>v || d\<close>.\<close>

fun truthy :: "jsval \<Rightarrow> bool" where
  "truthy JUndef = False"
| "truthy JNull = False"
| "truthy (JBool b) = b"
| "truthy (JNum n) = (n \<noteq> 0)"
| "truthy (JStr s) = (s \<noteq> [])"
| "truthy (JArr xs) = True"
| "truthy (JObj kvs) = True"
| "truthy (JFun f) = True"
| "truthy (JBlob b) = True"

section \<open>parseURL\<close>

text \<open>
  \<open>url.match(/\/d\/([^/]+)/)\<close>: the leftmost position where \<open>/d/\<close> is followed by at
  least one character other than \<open>/\<close>; the group is the longest run of such characters
  (\<open>+\<close> is greedy). \<open>None\<close> is the \<open>null\<close> of no match, the result is \<open>match[1]\<close>.
\<close>

fun match_d :: "string \<Rightarrow> string option" where
  "match_d [] = None"
| "match_d (c # cs) =
     (if c = CHR ''/'' \<and> take 2 cs = ''d/'' \<and> takeWhile (\<lambda>x. x \<noteq> CHR ''/'') (drop 2 cs) \<noteq> []
      then Some (takeWhile (\<lambda>x. x \<noteq> CHR ''/'') (drop 2 cs))
      else match_d cs)"

definition parseURL :: "string \<Rightarrow> error + string" where
  "parseURL url =
     (case match_d url of
        None \<Rightarrow> Inl InvalidURL
      | Some m \<Rightarrow> Inr (''https://docs.google.com/spreadsheets/d/'' @ m))"

section \<open>The runtime\<close>

text \<open>
  Reading a property \<open>v.k\<close> or \<open>v[k]\<close>. On \<open>null\<close> and \<open>undefined\<close> it raises a
  \<open>TypeError\<close>. On an object it finds the own property, then the one inherited from
  \<open>Object.prototype\<close>, then \<open>undefined\<close>. The names the source reads on other values
  (\<open>table\<close>, \<open>cols\<close>, \<open>rows\<close>, \<open>c\<close>, \<open>v\<close>, \<open>label\<close>, \<open>id\<close>, \<open>type\<close>, \<open>msg\<close>, \<open>raw\<close>,
  \<open>clearNull\<close>, \<open>sheet\<close>, \<open>query\<close>, \<open>className\<close>, \<open>callback\<close>, ...) are defined by no built-in
  prototype of arrays, strings, numbers, booleans or functions: there the result is
  \<open>undefined\<close>.
\<close>

definition object_proto_names :: "string list" where
  "object_proto_names =
     [''constructor'', ''hasOwnProperty'', ''isPrototypeOf'', ''propertyIsEnumerable'',
      ''toLocaleString'', ''toString'', ''valueOf'', ''__defineGetter__'',
      ''__defineSetter__'', ''__lookupGetter__'', ''__lookupSetter__'']"

definition object_proto :: "string \<Rightarrow> jsval" where
  "object_proto k =
     (if k \<in> set object_proto_names then JFun k
      else if k = ''__proto__'' then JObj []
      else JUndef)"

fun lookup :: "jsval \<Rightarrow> string \<Rightarrow> jsval" where
  "lookup (JObj kvs) k = (case map_of kvs k of Some v \<Rightarrow> v | None \<Rightarrow> object_proto k)"
| "lookup v k = JUndef"

definition nullish :: "jsval \<Rightarrow> bool" where
  "nullish v = (v = JUndef \<or> v = JNull)"

definition get_prop :: "jsval \<Rightarrow> string \<Rightarrow> error + jsval" where
  "get_prop v k = (if nullish v then Inl TypeError else Inr (lookup v k))"

text \<open>\<open>v?.k\<close>: \<open>undefined\<close> on \<open>null\<close> and \<open>undefined\<close>, the property otherwise.\<close>

definition opt_prop :: "jsval \<Rightarrow> string \<Rightarrow> jsval" where
  "opt_prop v k = (if nullish v then JUndef else lookup v k)"

text \<open>The decimal text of a natural number, as a template literal prints it.\<close>

fun show_nat :: "nat \<Rightarrow> string" where
  "show_nat n =
     (if n < 10 then [char_of (48 + n)]
      else show_nat (n div 10) @ [char_of (48 + n mod 10)])"

definition show_int :: "int \<Rightarrow> string" where
  "show_int n = (if n < 0 then CHR ''-'' # show_nat (nat (- n)) else show_nat (nat n))"

text \<open>\<open>c[i]\<close> for an index \<open>i\<close>: an element of an array, a character of a string, the
  property named by the digits of \<open>i\<close> of an object.\<close>

fun index_lookup :: "jsval \<Rightarrow> nat \<Rightarrow> jsval" where
  "index_lookup (JArr xs) i = (if i < length xs then xs ! i else JUndef)"
| "index_lookup (JStr s) i = (if i < length s then JStr [s ! i] else JUndef)"
| "index_lookup (JObj kvs) i = lookup (JObj kvs) (show_nat i)"
| "index_lookup v i = JUndef"

definition get_index :: "jsval \<Rightarrow> nat \<Rightarrow> error + jsval" where
  "get_index v i = (if nullish v then Inl TypeError else Inr (index_lookup v i))"

text \<open>The receiver of \<open>.map\<close>, \<open>.filter\<close> and \<open>.forEach\<close>: an array. Anything else has
  no such method (parsed JSON holds no function), and the call raises a \<open>TypeError\<close>.\<close>

fun array_of :: "jsval \<Rightarrow> error + jsval list" where
  "array_of (JArr xs) = Inr xs"
| "array_of v = Inl TypeError"

text \<open>A default in a parameter list or a destructuring pattern applies to \<open>undefined\<close> only.\<close>

definition default_to :: "jsval \<Rightarrow> jsval \<Rightarrow> jsval" where
  "default_to v d = (if v = JUndef then d else v)"

text \<open>\<open>s.indexOf(c)\<close>, \<open>s.lastIndexOf(c)\<close> (\<open>-1\<close> when absent) and \<open>s.slice(a, b)\<close>
  (a negative bound counts from the end; an empty range gives the empty string).\<close>

definition indexOf :: "string \<Rightarrow> char \<Rightarrow> int" where
  "indexOf s c = (if c \<in> set s then int (length (takeWhile (\<lambda>x. x \<noteq> c) s)) else - 1)"

definition lastIndexOf :: "string \<Rightarrow> char \<Rightarrow> int" where
  "lastIndexOf s c =
     (if c \<in> set s then int (length s) - 1 - int (length (takeWhile (\<lambda>x. x \<noteq> c) (rev s)))
      else - 1)"

definition js_slice :: "string \<Rightarrow> int \<Rightarrow> int \<Rightarrow> string" where
  "js_slice s a b =
     (let n = int (length s);
          from = (if a < 0 then max (n + a) 0 else min a n);
          to = (if b < 0 then max (n + b) 0 else min b n)
      in take (nat (to - from)) (drop (nat from) s))"

text \<open>The \<open>Response\<close> of a \<open>fetch\<close>: the fields the source reads, and its body (the text
  of \<open>res.text()\<close>, the content of \<open>res.blob()\<close>).\<close>

record response =
  ok :: bool
  status :: nat
  statusText :: string
  body :: string

text \<open>An element made by \<open>document.createElement\<close>: its tag, the values assigned to
  \<open>className\<close> and \<open>textContent\<close>, and the children appended to it.\<close>

datatype element =
  Element (tag: string) (className: jsval) (textContent: jsval) (children: "element list")

text \<open>
  What the library takes from its host and does not define: \<open>JSON.parse\<close> (\<open>None\<close> is
  its \<open>SyntaxError\<close>), \<open>encodeURIComponent\<close> of a value (\<open>None\<close> is its exception), the
  network behind \<open>fetch\<close> (the response to a URL; \<open>None\<close> is a rejected request), the
  source text a built-in function prints as, and what a callback does to the element it
  is handed.
\<close>

record env =
  JSON_parse :: "string \<Rightarrow> jsval option"
  encodeURIComponent :: "jsval \<Rightarrow> string option"
  network :: "string \<Rightarrow> response option"
  native_text :: "string \<Rightarrow> string"
  call_hook :: "string \<Rightarrow> element \<Rightarrow> element"

text \<open>
  An asynchronous function yields its outcome (the value it resolves with, or the error
  it rejects with) and the URLs it has requested, in order. An exception ends the
  function: the requests made before it stay in the log.
\<close>

type_synonym 'a io = "(error + 'a) \<times> string list"

definition io_return :: "'a \<Rightarrow> 'a io" where
  "io_return x = (Inr x, [])"

definition io_throw :: "error \<Rightarrow> 'a io" where
  "io_throw e = (Inl e, [])"

definition io_lift :: "error + 'a \<Rightarrow> 'a io" where
  "io_lift r = (r, [])"

definition io_bind :: "'a io \<Rightarrow> ('a \<Rightarrow> 'b io) \<Rightarrow> 'b io" where
  "io_bind m f =
     (case m of
        (Inl e, l) \<Rightarrow> (Inl e, l)
      | (Inr x, l) \<Rightarrow> (case f x of (r, l') \<Rightarrow> (r, l @ l')))"

definition e_bind :: "error + 'a \<Rightarrow> ('a \<Rightarrow> error + 'b) \<Rightarrow> error + 'b" where
  "e_bind m f = (case m of Inl e \<Rightarrow> Inl e | Inr x \<Rightarrow> f x)"

text \<open>\<open>xs.map(f)\<close> with a callback that may throw: the first exception ends the loop.\<close>

fun map_err :: "('a \<Rightarrow> error + 'b) \<Rightarrow> 'a list \<Rightarrow> error + 'b list" where
  "map_err f [] = Inr []"
| "map_err f (x # xs) =
     (case f x of
        Inl e \<Rightarrow> Inl e
      | Inr y \<Rightarrow> (case map_err f xs of Inl e \<Rightarrow> Inl e | Inr ys \<Rightarrow> Inr (y # ys)))"

text \<open>\<open>await fetch(url)\<close>: one request, logged.\<close>

definition js_fetch :: "env \<Rightarrow> string \<Rightarrow> response io" where
  "js_fetch env url =
     (case network env url of
        None \<Rightarrow> (Inl NetworkError, [url])
      | Some res \<Rightarrow> (Inr res, [url]))"

text \<open>\<open>encodeURIComponent(v)\<close> inside an expression.\<close>

definition encode :: "env \<Rightarrow> jsval \<Rightarrow> error + string" where
  "encode env v = (case encodeURIComponent env v of None \<Rightarrow> Inl URIError | Some s \<Rightarrow> Inr s)"

section \<open>fetchJSON\<close>

text \<open>
  \<open>const { sheet = "Sheet1", query = "SELECT *" } = options\<close>, the request, and the
  reading of the response. The result objects are \<open>{ data, msg }\<close>.
\<close>

definition fetchJSON :: "env \<Rightarrow> string \<Rightarrow> jsval \<Rightarrow> jsval io" where
  "fetchJSON env url options =
     io_bind (io_lift (get_prop options ''sheet'')) (\<lambda>sheet0.
     io_bind (io_lift (get_prop options ''query'')) (\<lambda>query0.
     let sheet = default_to sheet0 (JStr ''Sheet1'');
         query = default_to query0 (JStr ''SELECT *'') in
     io_bind (io_lift (parseURL url)) (\<lambda>base.
     io_bind (io_lift (encode env sheet)) (\<lambda>s.
     io_bind (io_lift (encode env query)) (\<lambda>q.
     io_bind (js_fetch env (base @ ''/gviz/tq?sheet='' @ s @ ''&tq='' @ q)) (\<lambda>res.
       if ok res then
         (let text = body res in
          case JSON_parse env
                 (js_slice text (indexOf text CHR ''{'') (lastIndexOf text CHR ''}'' + 1)) of
            None \<Rightarrow> io_throw SyntaxError
          | Some json \<Rightarrow>
              io_bind (io_lift (get_prop json ''table'')) (\<lambda>table.
                if \<not> truthy table
                then io_return (JObj [(''data'', JNull),
                                      (''msg'', JStr ''Invalid query or empty response'')])
                else io_return (JObj [(''data'', json), (''msg'', JStr ''ok'')])))
       else io_return (JObj [(''data'', JNull),
              (''msg'', JStr (''HTTP Error '' @ show_nat (status res) @ '': '' @ statusText res))])))))))"

section \<open>get\<close>

text \<open>The callback of \<open>table.cols.map\<close>: \<open>{ label: col?.label || `Column ${index + 1}`,
  columnId: col?.id, type: col?.type }\<close>.\<close>

definition norm_col :: "jsval \<Rightarrow> nat \<Rightarrow> jsval" where
  "norm_col col index =
     JObj [(''label'', if truthy (opt_prop col ''label'') then opt_prop col ''label''
                       else JStr (''Column '' @ show_nat (index + 1))),
           (''columnId'', opt_prop col ''id''),
           (''type'', opt_prop col ''type'')]"

text \<open>The inner callback of \<open>table.rows.map\<close>: \<open>const cell = row.c[i]; return cell ? cell.v : null\<close>.\<close>

definition cell_value :: "jsval \<Rightarrow> nat \<Rightarrow> error + jsval" where
  "cell_value row i =
     e_bind (get_prop row ''c'') (\<lambda>c.
     e_bind (get_index c i) (\<lambda>cell.
     if truthy cell then get_prop cell ''v'' else Inr JNull))"

text \<open>\<open>row.filter((cell) => cell !== null)\<close>.\<close>

definition clear_null :: "jsval list \<Rightarrow> jsval list" where
  "clear_null row = filter (\<lambda>cell. cell \<noteq> JNull) row"

text \<open>The current \<open>get\<close> (the source with \<open>clearNull\<close> and \<open>generateTableFromOutput\<close>).\<close>

definition get :: "env \<Rightarrow> string \<Rightarrow> jsval \<Rightarrow> jsval io" where
  "get env url options0 =
     (let options = default_to options0 (JObj []) in
      if js_typeof options \<noteq> ''object'' then io_throw InvalidOptions
      else
      io_bind (fetchJSON env url options) (\<lambda>res.
      io_bind (io_lift (get_prop res ''data'')) (\<lambda>data.
      if \<not> truthy data then
        io_bind (io_lift (get_prop res ''msg'')) (\<lambda>msg.
        io_return (JObj [(''cols'', JArr []), (''rows'', JArr []), (''msg'', msg)]))
      else
      io_bind (io_lift (get_prop options ''raw'')) (\<lambda>raw.
      if truthy raw then io_return res
      else io_lift (
        e_bind (get_prop data ''table'') (\<lambda>table.
        e_bind (get_prop table ''cols'') (\<lambda>tcols0.
        e_bind (array_of tcols0) (\<lambda>tcols.
        let cols = map2 norm_col tcols [0..<length tcols] in
        e_bind (get_prop table ''rows'') (\<lambda>trows0.
        e_bind (array_of trows0) (\<lambda>trows.
        e_bind (map_err (\<lambda>row. map_err (cell_value row) [0..<length cols]) trows) (\<lambda>rows.
        e_bind (get_prop options ''clearNull'') (\<lambda>clearNull.
        let rows' = (if truthy clearNull then map clear_null rows else rows) in
        e_bind (get_prop res ''msg'') (\<lambda>msg.
        Inr (JObj [(''cols'', JArr cols), (''rows'', JArr (map JArr rows')),
                   (''msg'', msg)]))))))))))))))"

text \<open>\<open>get\<close> of \<open>dist/gsheety.js\<close>: \<open>{ cols: table.cols.map((col) => (col ? { label:
  col.label, type: col.type } : null)), rows: table.rows.map((row) => row.c.map((cell) =>
  (cell ? cell.v : null))) }\<close>.\<close>

definition dist_col :: "jsval \<Rightarrow> jsval" where
  "dist_col col =
     (if truthy col then JObj [(''label'', lookup col ''label''), (''type'', lookup col ''type'')]
      else JNull)"

definition dist_cell :: "jsval \<Rightarrow> error + jsval" where
  "dist_cell cell = (if truthy cell then get_prop cell ''v'' else Inr JNull)"

definition dist_row :: "jsval \<Rightarrow> error + jsval list" where
  "dist_row row =
     e_bind (get_prop row ''c'') (\<lambda>c.
     e_bind (array_of c) (\<lambda>cells. map_err dist_cell cells))"

definition get_dist :: "env \<Rightarrow> string \<Rightarrow> jsval \<Rightarrow> jsval io" where
  "get_dist env url options0 =
     (let options = default_to options0 (JObj []) in
      if js_typeof options \<noteq> ''object'' then io_throw InvalidOptions
      else
      io_bind (fetchJSON env url options) (\<lambda>res.
      io_bind (io_lift (get_prop res ''data'')) (\<lambda>data.
      if \<not> truthy data then
        io_bind (io_lift (get_prop res ''msg'')) (\<lambda>msg.
        io_return (JObj [(''cols'', JArr []), (''rows'', JArr []), (''msg'', msg)]))
      else
      io_bind (io_lift (get_prop options ''raw'')) (\<lambda>raw.
      if truthy raw then io_return res
      else io_lift (
        e_bind (get_prop data ''table'') (\<lambda>table.
        e_bind (get_prop table ''cols'') (\<lambda>tcols0.
        e_bind (array_of tcols0) (\<lambda>tcols.
        e_bind (get_prop table ''rows'') (\<lambda>trows0.
        e_bind (array_of trows0) (\<lambda>trows.
        e_bind (map_err dist_row trows) (\<lambda>rows.
        Inr (JObj [(''cols'', JArr (map dist_col tcols)),
                   (''rows'', JArr (map JArr rows))]))))))))))))"

text \<open>\<open>get\<close> of \<open>src/gsheety.js\<close>: the same with \<open>.filter((col) => col !== null)\<close> on the
  columns, \<open>.map((cells) => cells.filter((cell) => cell !== null))\<close> on the rows, and
  \<open>msg: res.msg\<close>.\<close>

definition get_src :: "env \<Rightarrow> string \<Rightarrow> jsval \<Rightarrow> jsval io" where
  "get_src env url options0 =
     (let options = default_to options0 (JObj []) in
      if js_typeof options \<noteq> ''object'' then io_throw InvalidOptions
      else
      io_bind (fetchJSON env url options) (\<lambda>res.
      io_bind (io_lift (get_prop res ''data'')) (\<lambda>data.
      if \<not> truthy data then
        io_bind (io_lift (get_prop res ''msg'')) (\<lambda>msg.
        io_return (JObj [(''cols'', JArr []), (''rows'', JArr []), (''msg'', msg)]))
      else
      io_bind (io_lift (get_prop options ''raw'')) (\<lambda>raw.
      if truthy raw then io_return res
      else io_lift (
        e_bind (get_prop data ''table'') (\<lambda>table.
        e_bind (get_prop table ''cols'') (\<lambda>tcols0.
        e_bind (array_of tcols0) (\<lambda>tcols.
        e_bind (get_prop table ''rows'') (\<lambda>trows0.
        e_bind (array_of trows0) (\<lambda>trows.
        e_bind (map_err dist_row trows) (\<lambda>rows.
        e_bind (get_prop res ''msg'') (\<lambda>msg.
        Inr (JObj [(''cols'', JArr (filter (\<lambda>col. col \<noteq> JNull) (map dist_col tcols))),
                   (''rows'', JArr (map JArr (map clear_null rows))),
                   (''msg'', msg)])))))))))))))"

section \<open>getExportedData\<close>

text \<open>The text of a value inside a template literal and as a property key.\<close>

fun join_comma :: "string list \<Rightarrow> string" where
  "join_comma [] = []"
| "join_comma [s] = s"
| "join_comma (s # t # ss) = s @ '','' @ join_comma (t # ss)"

fun js_toString :: "env \<Rightarrow> jsval \<Rightarrow> string" where
  "js_toString env JUndef = ''undefined''"
| "js_toString env JNull = ''null''"
| "js_toString env (JBool b) = (if b then ''true'' else ''false'')"
| "js_toString env (JNum n) = show_int n"
| "js_toString env (JStr s) = s"
| "js_toString env (JArr xs) =
     join_comma (map (\<lambda>x. if nullish x then [] else js_toString env x) xs)"
| "js_toString env (JObj kvs) = ''[object Object]''"
| "js_toString env (JFun f) = native_text env f"
| "js_toString env (JBlob b) = ''[object Blob]''"

definition formats :: jsval where
  "formats = JObj [(''csv'', JStr ''export?format=csv''),
                   (''tsv'', JStr ''export?format=tsv''),
                   (''pdf'', JStr ''export?format=pdf''),
                   (''xlsx'', JStr ''export?format=xlsx'')]"

definition getExportedData :: "env \<Rightarrow> string \<Rightarrow> jsval \<Rightarrow> jsval io" where
  "getExportedData env url type0 =
     (let type = default_to type0 (JStr ''csv'') in
      io_bind (io_lift (get_prop formats (js_toString env type))) (\<lambda>fmt.
      if \<not> truthy fmt then io_throw UnsupportedFormat
      else
      io_bind (io_lift (parseURL url)) (\<lambda>base.
      io_bind (js_fetch env (base @ ''/'' @ js_toString env fmt)) (\<lambda>res.
      if \<not> ok res
      then io_throw (HTTPError (''HTTP Error '' @ show_nat (status res) @ '': '' @ statusText res))
      else io_return (if type = JStr ''pdf'' \<or> type = JStr ''xlsx''
                      then JBlob (body res) else JStr (body res))))))"

section \<open>generateTableFromOutput\<close>

text \<open>\<open>Array.isArray(v)\<close>.\<close>

fun isArray :: "jsval \<Rightarrow> bool" where
  "isArray (JArr xs) = True"
| "isArray v = False"

text \<open>
  \<open>if (typeof h === "function") h(el)\<close>: the element after the call, and the call made
  (the callback's name and the element as it was handed over). The element is already
  appended to its row, so what the callback does to it shows in the table.
\<close>

definition run_hook :: "env \<Rightarrow> jsval \<Rightarrow> element \<Rightarrow> element \<times> (string \<times> element) list" where
  "run_hook env h el =
     (case h of
        JFun f \<Rightarrow> (call_hook env f el, [(f, el)])
      | _ \<Rightarrow> (el, []))"

text \<open>\<open>if (options.className?.k) el.className = options.className.k\<close>; a new element's
  class name is the empty string.\<close>

definition class_of :: "jsval \<Rightarrow> string \<Rightarrow> jsval" where
  "class_of cn k = (if truthy (opt_prop cn k) then lookup cn k else JStr [])"

text \<open>The body of \<open>data.cols.forEach\<close>: one \<open>th\<close> with \<open>textContent = col.label\<close>.\<close>

definition header_cell :: "env \<Rightarrow> jsval \<Rightarrow> jsval \<Rightarrow> error + element \<times> (string \<times> element) list" where
  "header_cell env options col =
     e_bind (get_prop col ''label'') (\<lambda>label.
     e_bind (get_prop options ''callback'') (\<lambda>cb.
     Inr (run_hook env (opt_prop cb ''theadItem'') (Element ''th'' (JStr []) label []))))"

text \<open>The body of \<open>row.forEach\<close>: one \<open>td\<close> with \<open>textContent = cell\<close>.\<close>

definition body_cell :: "env \<Rightarrow> jsval \<Rightarrow> jsval \<Rightarrow> error + element \<times> (string \<times> element) list" where
  "body_cell env options cell =
     e_bind (get_prop options ''callback'') (\<lambda>cb.
     Inr (run_hook env (opt_prop cb ''tbodyItem'') (Element ''td'' (JStr []) cell [])))"

text \<open>The body of \<open>data.rows.forEach\<close>: one \<open>tr\<close> of the row's cells.\<close>

definition body_row :: "env \<Rightarrow> jsval \<Rightarrow> jsval \<Rightarrow> error + element \<times> (string \<times> element) list" where
  "body_row env options row =
     e_bind (array_of row) (\<lambda>cells.
     e_bind (map_err (body_cell env options) cells) (\<lambda>tds.
     Inr (Element ''tr'' (JStr []) JUndef (map fst tds), concat (map snd tds))))"

text \<open>
  The table, and the callback calls in the order they were made. The function is
  synchronous and requests nothing: its request log is empty.
\<close>

definition generateTableFromOutput ::
    "env \<Rightarrow> jsval \<Rightarrow> jsval \<Rightarrow> (element \<times> (string \<times> element) list) io" where
  "generateTableFromOutput env data options0 =
     (let options = default_to options0 (JObj []) in
      if \<not> truthy data \<or> \<not> isArray (lookup data ''rows'') \<or> \<not> isArray (lookup data ''cols'')
         \<or> lookup data ''msg'' \<noteq> JStr ''ok''
      then io_throw InvalidData
      else io_lift (
        e_bind (get_prop options ''className'') (\<lambda>cn.
        e_bind (array_of (lookup data ''cols'')) (\<lambda>cols.
        e_bind (map_err (header_cell env options) cols) (\<lambda>ths.
        e_bind (array_of (lookup data ''rows'')) (\<lambda>rows.
        e_bind (map_err (body_row env options) rows) (\<lambda>trs.
        Inr (Element ''table'' (class_of cn ''table'') JUndef
               [Element ''thead'' (class_of cn ''thead'') JUndef
                  [Element ''tr'' (JStr []) JUndef (map fst ths)],
                Element ''tbody'' (class_of cn ''tbody'') JUndef (map fst trs)],
             concat (map snd ths) @ concat (map snd trs)))))))))"

section \<open>A sample host\<close>

text \<open>
  One concrete host for the evaluations below: a sheet of three columns and two rows
  (the second row is shorter than the column list and starts with an empty cell), the
  envelope the visualization endpoint wraps it in, and the few requests that are answered.
  \<open>JSON.parse\<close> and \<open>encodeURIComponent\<close> are tabulated at the strings that occur.
\<close>

definition sample_text :: string where
  \<open>sample_text = ''{"table":{"cols":[{"id":"A","label":"Name","type":"string"},{"id":"B","label":"","type":"number"},{"id":"C","label":"Hobby","type":"string"}],"rows":[{"c":[{"v":"Adam"},null,{"v":"Cycling"}]},{"c":[null,{"v":25}]}]}}''\<close>

definition sample_body :: string where
  "sample_body = ''/*O_o*/ google.visualization.Query.setResponse('' @ sample_text @ '');''"

definition sample_json :: jsval where
  "sample_json =
     JObj [(''table'', JObj
       [(''cols'', JArr
          [JObj [(''id'', JStr ''A''), (''label'', JStr ''Name''), (''type'', JStr ''string'')],
           JObj [(''id'', JStr ''B''), (''label'', JStr []), (''type'', JStr ''number'')],
           JObj [(''id'', JStr ''C''), (''label'', JStr ''Hobby''), (''type'', JStr ''string'')]]),
        (''rows'', JArr
          [JObj [(''c'', JArr [JObj [(''v'', JStr ''Adam'')], JNull, JObj [(''v'', JStr ''Cycling'')]])],
           JObj [(''c'', JArr [JNull, JObj [(''v'', JNum 25)]])]])])]"

definition sample_env :: env where
  \<open>sample_env =
     \<lparr> JSON_parse = map_of
         [(sample_text, sample_json),
          (''{"table":null}'', JObj [(''table'', JNull)])],
       encodeURIComponent = map_of
         [(JStr ''Sheet1'', ''Sheet1''), (JStr ''SELECT *'', ''SELECT%20*'')],
       network = map_of
         [(''https://docs.google.com/spreadsheets/d/1X50-cs/gviz/tq?sheet=Sheet1&tq=SELECT%20*'',
           \<lparr> ok = True, status = 200, statusText = ''OK'',
             body = sample_body \<rparr>),
          (''https://docs.google.com/spreadsheets/d/nulltable/gviz/tq?sheet=Sheet1&tq=SELECT%20*'',
           \<lparr> ok = True, status = 200, statusText = ''OK'',
             body = ''/*O_o*/ google.visualization.Query.setResponse({"table":null});'' \<rparr>),
          (''https://docs.google.com/spreadsheets/d/private/gviz/tq?sheet=Sheet1&tq=SELECT%20*'',
           \<lparr> ok = True, status = 200, statusText = ''OK'',
             body = ''<html>Sign in to continue</html>'' \<rparr>),
          (''https://docs.google.com/spreadsheets/d/gone/gviz/tq?sheet=Sheet1&tq=SELECT%20*'',
           \<lparr> ok = False, status = 404, statusText = ''Not Found'', body = [] \<rparr>),
          (''https://docs.google.com/spreadsheets/d/1X50-cs/export?format=csv'',
           \<lparr> ok = True, status = 200, statusText = ''OK'', body = ''Name,,Hobby'' \<rparr>),
          (''https://docs.google.com/spreadsheets/d/1X50-cs/export?format=xlsx'',
           \<lparr> ok = True, status = 200, statusText = ''OK'', body = ''PK'' \<rparr>),
          (''https://docs.google.com/spreadsheets/d/gone/export?format=csv'',
           \<lparr> ok = False, status = 404, statusText = ''Not Found'', body = [] \<rparr>),
          (''https://docs.google.com/spreadsheets/d/1X50-cs/function Object() { [native code] }'',
           \<lparr> ok = False, status = 400, statusText = ''Bad Request'', body = [] \<rparr>)],
       native_text = (\<lambda>f. if f = ''constructor'' then ''function Object() { [native code] }''
                         else ''function '' @ f @ ''() { [native code] }''),
       call_hook = (\<lambda>f el. Element (tag el) (JStr f) (textContent el) (children el)) \<rparr>\<close>

section \<open>Properties of parseURL\<close>

declare show_nat.simps [simp del]

lemma take2_eq: "take 2 cs = [a, b] \<longleftrightarrow> (\<exists>r. cs = a # b # r)"
  by (cases cs; cases "tl cs") (auto simp: take_Suc_conv_app_nth numeral_2_eq_2)

lemma head_match_iff:
  "(c = CHR ''/'' \<and> take 2 cs = ''d/'' \<and> takeWhile (\<lambda>x. x \<noteq> CHR ''/'') (drop 2 cs) \<noteq> [])
   \<longleftrightarrow> (\<exists>x rest. c # cs = ''/d/'' @ x # rest \<and> x \<noteq> CHR ''/'')"
  apply (simp add: take2_eq)
  apply (rule iffI)
   apply (elim conjE exE)
   apply (case_tac r)
    apply simp
   apply (simp split: if_splits)
  apply auto
  done


lemma match_d_Some:
  assumes "match_d u = Some m"
  shows "\<exists>pre rest. u = pre @ ''/d/'' @ m @ rest \<and> m \<noteq> [] \<and> CHR ''/'' \<notin> set m
           \<and> (rest = [] \<or> hd rest = CHR ''/'')
           \<and> (\<forall>pre' x rest'. u = pre' @ ''/d/'' @ x # rest' \<and> x \<noteq> CHR ''/''
                 \<longrightarrow> length pre \<le> length pre')"
  using assms
proof (induction u)
  case Nil
  then show ?case by simp
next
  case (Cons c cs)
  let ?P = "\<lambda>x. x \<noteq> CHR ''/''"
  let ?A = "c = CHR ''/'' \<and> take 2 cs = ''d/'' \<and> takeWhile ?P (drop 2 cs) \<noteq> []"
  show ?case
  proof (cases ?A)
    case True
    with Cons.prems have m: "m = takeWhile ?P (drop 2 cs)" by simp
    from True obtain r where cs: "cs = CHR ''d'' # CHR ''/'' # r"
      using take2_eq[of cs "CHR ''d''" "CHR ''/''"] by auto
    have e: "c # cs = [] @ ''/d/'' @ m @ dropWhile ?P r"
      using True cs m by simp
    have n: "m \<noteq> []" using True m by simp
    have s: "CHR ''/'' \<notin> set m" unfolding m by (auto dest: set_takeWhileD)
    have h: "dropWhile ?P r = [] \<or> hd (dropWhile ?P r) = CHR ''/''"
      using hd_dropWhile[of ?P r] by auto
    show ?thesis
      apply (rule exI[of _ "[]"])
      apply (rule exI[of _ "dropWhile ?P r"])
      using e n s h by simp
  next
    case False
    with Cons.prems have "match_d cs = Some m" by auto
    from Cons.IH[OF this] obtain pre rest where
      e: "cs = pre @ ''/d/'' @ m @ rest" and n: "m \<noteq> []" and s: "CHR ''/'' \<notin> set m"
      and h: "rest = [] \<or> hd rest = CHR ''/''"
      and l: "\<forall>pre' x rest'. cs = pre' @ ''/d/'' @ x # rest' \<and> x \<noteq> CHR ''/''
                 \<longrightarrow> length pre \<le> length pre'"
      by blast
    have nh: "\<not> (\<exists>x rest. c # cs = ''/d/'' @ x # rest \<and> x \<noteq> CHR ''/'')"
      using False head_match_iff[of c cs] by blast
    have l': "\<forall>pre' x rest'. c # cs = pre' @ ''/d/'' @ x # rest' \<and> x \<noteq> CHR ''/''
                 \<longrightarrow> length (c # pre) \<le> length pre'"
    proof (intro allI impI)
      fix pre' x rest'
      assume a: "c # cs = pre' @ ''/d/'' @ x # rest' \<and> x \<noteq> CHR ''/''"
      show "length (c # pre) \<le> length pre'"
      proof (cases pre')
        case Nil
        with a nh show ?thesis by auto
      next
        case (Cons p ps)
        with a have "cs = ps @ ''/d/'' @ x # rest' \<and> x \<noteq> CHR ''/''" by simp
        with l have "length pre \<le> length ps" by blast
        with Cons show ?thesis by simp
      qed
    qed
    have e': "c # cs = (c # pre) @ ''/d/'' @ m @ rest" using e by simp
    show ?thesis
      apply (rule exI[of _ "c # pre"])
      apply (rule exI[of _ rest])
      using e' n s h l' by blast
  qed
qed

lemma match_d_canonical:
  assumes "m \<noteq> []" "CHR ''/'' \<notin> set m"
  shows "match_d (''https://docs.google.com/spreadsheets/d/'' @ m) = Some m"
proof -
  from assms obtain x xs where m: "m = x # xs" and x: "x \<noteq> CHR ''/''"
    by (cases m) auto
  have "takeWhile (\<lambda>x. x \<noteq> CHR ''/'') m = m"
    using assms(2) by (auto intro: takeWhile_eq_all_conv[THEN iffD2])
  then show ?thesis using m x by simp
qed




text \<open>
  C9. \<open>parseURL\<close> is idempotent: on every input on which it succeeds, applying it to its
  own output succeeds again with the same canonical URL. (The output always holds a
  \<open>/d/<id>\<close> that the pattern matches, so no condition on the output is needed.)
\<close>

theorem parseURL_idempotent:
  "parseURL u = Inr v \<Longrightarrow> parseURL v = Inr v"
proof -
  assume "parseURL u = Inr v"
  then obtain m where m: "match_d u = Some m"
    and v: "v = ''https://docs.google.com/spreadsheets/d/'' @ m"
    by (auto simp: parseURL_def split: option.splits)
  from match_d_Some[OF m] have "m \<noteq> []" "CHR ''/'' \<notin> set m" by blast+
  then have "match_d v = Some m" unfolding v by (rule match_d_canonical)
  then show "parseURL v = Inr v" by (simp add: parseURL_def v)
qed

theorem parseURL_idempotent_witness:
  "parseURL ''https://docs.google.com/spreadsheets/d/1X50-cs/edit?usp=sharing''
     = Inr ''https://docs.google.com/spreadsheets/d/1X50-cs''
   \<and> parseURL ''https://docs.google.com/spreadsheets/d/1X50-cs''
     = Inr ''https://docs.google.com/spreadsheets/d/1X50-cs''"
proof -
  have a: "parseURL ''https://docs.google.com/spreadsheets/d/1X50-cs/edit?usp=sharing''
             = Inr ''https://docs.google.com/spreadsheets/d/1X50-cs''"
    by (simp add: parseURL_def)
  from parseURL_idempotent[OF a] a show ?thesis by blast
qed

section \<open>Lemmas about the runtime\<close>

lemma io_bind_lift [simp]:
  "io_bind (io_lift r) f = (case r of Inl e \<Rightarrow> (Inl e, []) | Inr x \<Rightarrow> f x)"
  by (cases r) (auto simp: io_bind_def io_lift_def split: prod.splits)

lemma io_bind_Inl [simp]: "io_bind (Inl e, l) f = (Inl e, l)"
  by (simp add: io_bind_def)

lemma io_bind_Inr [simp]: "io_bind (Inr x, l) f = (fst (f x), l @ snd (f x))"
  by (simp add: io_bind_def split: prod.splits)

lemma e_bind_simps [simp]:
  "e_bind (Inl e) f = Inl e"
  "e_bind (Inr x) f = f x"
  by (simp_all add: e_bind_def)

lemma get_prop_simps [simp]:
  "get_prop JUndef k = Inl TypeError"
  "get_prop JNull k = Inl TypeError"
  "\<not> nullish v \<Longrightarrow> get_prop v k = Inr (lookup v k)"
  by (simp_all add: get_prop_def nullish_def)

lemma nullish_simps [simp]:
  "nullish JUndef" "nullish JNull" "\<not> nullish (JBool b)" "\<not> nullish (JNum n)"
  "\<not> nullish (JStr s)" "\<not> nullish (JArr xs)" "\<not> nullish (JObj kvs)"
  "\<not> nullish (JFun f)" "\<not> nullish (JBlob bl)"
  by (simp_all add: nullish_def)

lemma truthy_not_nullish: "truthy v \<Longrightarrow> \<not> nullish v"
  by (auto simp: nullish_def)

lemma typeof_object_cases:
  "js_typeof v = ''object'' \<longleftrightarrow> v = JNull \<or> (\<exists>xs. v = JArr xs) \<or> (\<exists>kvs. v = JObj kvs) \<or> (\<exists>b. v = JBlob b)"
  by (cases v) auto

lemma truthy_lookup_obj: "truthy (lookup v k) \<Longrightarrow> \<exists>kvs. v = JObj kvs"
  by (cases v) auto

lemma get_prop_Inr_iff: "get_prop v k = Inr x \<longleftrightarrow> \<not> nullish v \<and> x = lookup v k"
  by (auto simp: get_prop_def)

text \<open>What fetchJSON resolves with is always an object { data, msg }.\<close>

lemma fetchJSON_shape:
  assumes "fetchJSON env url options = (Inr res, log)"
  shows "\<exists>d m. res = JObj [(''data'', d), (''msg'', JStr m)] \<and> (d = JNull \<or> truthy d)"
  using assms
  unfolding fetchJSON_def js_fetch_def encode_def
  by (auto simp: Let_def io_return_def io_throw_def get_prop_Inr_iff
           dest: truthy_lookup_obj
           split: sum.splits option.splits if_splits)

lemma get_non_object:
  assumes "options \<noteq> JUndef" "js_typeof options \<noteq> ''object''"
  shows "get env url options = (Inl InvalidOptions, [])"
  using assms by (simp add: get_def default_to_def io_throw_def)




lemma fetchJSON_Inr_options:
  "fetchJSON env url options = (Inr res, log) \<Longrightarrow> \<not> nullish options"
  unfolding fetchJSON_def
  by (cases "nullish options") (auto simp: get_prop_def)


lemma takeWhile_until:
  "c \<notin> set pre \<Longrightarrow> takeWhile (\<lambda>x. x \<noteq> c) (pre @ c # rest) = pre"
  by (induction pre) auto

lemma slice_first_last:
  assumes t: "text = pre @ CHR ''{'' # mid @ CHR ''}'' # post"
    and pre: "CHR ''{'' \<notin> set pre" and post: "CHR ''}'' \<notin> set post"
  shows "js_slice text (indexOf text CHR ''{'') (lastIndexOf text CHR ''}'' + 1)
           = CHR ''{'' # mid @ ''}''"
proof -
  have i: "indexOf text CHR ''{'' = int (length pre)"
    using takeWhile_until[OF pre, of "mid @ CHR ''}'' # post"] unfolding indexOf_def t
    by simp
  have r: "rev text = rev post @ CHR ''}'' # (rev mid @ CHR ''{'' # rev pre)"
    unfolding t by simp
  have "takeWhile (\<lambda>x. x \<noteq> CHR ''}'') (rev text) = rev post"
    unfolding r using post takeWhile_until[of "CHR ''}''" "rev post"] by simp
  then have l: "lastIndexOf text CHR ''}'' = int (length text) - 1 - int (length post)"
    unfolding lastIndexOf_def by (simp add: t)
  have len: "length text = length pre + length mid + length post + 2"
    unfolding t by simp
  have d: "drop (length pre) text = CHR ''{'' # mid @ CHR ''}'' # post"
    unfolding t by simp
  have n: "nat (int (length text) - int (length post) - int (length pre)) = length mid + 2"
    using len by simp
  have "js_slice text (int (length pre)) (int (length text) - int (length post))
          = take (length mid + 2) (drop (length pre) text)"
    unfolding js_slice_def Let_def using len n by (simp add: min_def)
  also have "\<dots> = CHR ''{'' # mid @ ''}''"
    unfolding d by simp
  finally show ?thesis using i l by simp
qed

lemma fetchJSON_response:
  assumes "\<not> nullish options"
    and "parseURL url = Inr base"
    and "encode env (default_to (lookup options ''sheet'') (JStr ''Sheet1'')) = Inr s"
    and "encode env (default_to (lookup options ''query'') (JStr ''SELECT *'')) = Inr q"
    and "network env (base @ ''/gviz/tq?sheet='' @ s @ ''&tq='' @ q) = Some res"
  shows "fetchJSON env url options =
     (if ok res then
        (case JSON_parse env (js_slice (body res) (indexOf (body res) CHR ''{'')
                                (lastIndexOf (body res) CHR ''}'' + 1)) of
           None \<Rightarrow> Inl SyntaxError
         | Some json \<Rightarrow>
             if nullish json then Inl TypeError
             else if truthy (lookup json ''table'')
             then Inr (JObj [(''data'', json), (''msg'', JStr ''ok'')])
             else Inr (JObj [(''data'', JNull), (''msg'', JStr ''Invalid query or empty response'')]))
      else Inr (JObj [(''data'', JNull),
              (''msg'', JStr (''HTTP Error '' @ show_nat (status res) @ '': '' @ statusText res))]),
      [base @ ''/gviz/tq?sheet='' @ s @ ''&tq='' @ q])"
  using assms unfolding fetchJSON_def js_fetch_def
  by (auto simp: Let_def io_return_def io_throw_def get_prop_def split: option.splits)

section \<open>Properties of fetchJSON\<close>

lemma sample_parse:
  "JSON_parse sample_env sample_text = Some sample_json"
  by (simp add: sample_env_def)

lemma sample_slice:
  "js_slice sample_body
      (indexOf sample_body CHR ''{'')
      (lastIndexOf sample_body CHR ''}'' + 1)
    = sample_text"
  by code_simp


text \<open>
  C2 (amended). For every HTTP-success response, \<open>fetchJSON\<close> hands \<open>JSON.parse\<close> the
  slice of the body from \<open>indexOf("{")\<close> to \<open>lastIndexOf("}") + 1\<close>, which is the text
  from the first \<open>{\<close> to the last \<open>}\<close> inclusive whenever the body has a \<open>{\<close> before its last
  \<open>}\<close>. When the parse fails, \<open>fetchJSON\<close> throws. When the parsed value's \<open>table\<close> is
  absent or falsy (\<open>null\<close>, \<open>false\<close>, \<open>0\<close>, the empty string), it returns
  \<open>{ data: null, msg: "Invalid query or empty response" }\<close>; otherwise it returns
  \<open>{ data: parsedObject, msg: "ok" }\<close>. One request is made.
\<close>

theorem fetchJSON_success_response:
  assumes "\<not> nullish options"
    and "parseURL url = Inr base"
    and "encode env (default_to (lookup options ''sheet'') (JStr ''Sheet1'')) = Inr s"
    and "encode env (default_to (lookup options ''query'') (JStr ''SELECT *'')) = Inr q"
    and "network env (base @ ''/gviz/tq?sheet='' @ s @ ''&tq='' @ q) = Some res"
    and "ok res"
  shows "fetchJSON env url options =
           (case JSON_parse env (js_slice (body res) (indexOf (body res) CHR ''{'')
                                   (lastIndexOf (body res) CHR ''}'' + 1)) of
              None \<Rightarrow> Inl SyntaxError
            | Some json \<Rightarrow>
                if nullish json then Inl TypeError
                else if truthy (lookup json ''table'')
                then Inr (JObj [(''data'', json), (''msg'', JStr ''ok'')])
                else Inr (JObj [(''data'', JNull),
                                (''msg'', JStr ''Invalid query or empty response'')]),
            [base @ ''/gviz/tq?sheet='' @ s @ ''&tq='' @ q])
         \<and> (\<forall>pre mid post.
               body res = pre @ CHR ''{'' # mid @ CHR ''}'' # post
               \<and> CHR ''{'' \<notin> set pre \<and> CHR ''}'' \<notin> set post
               \<longrightarrow> js_slice (body res) (indexOf (body res) CHR ''{'')
                      (lastIndexOf (body res) CHR ''}'' + 1) = CHR ''{'' # mid @ ''}'')"
proof (intro conjI allI impI)
  show "fetchJSON env url options =
           (case JSON_parse env (js_slice (body res) (indexOf (body res) CHR ''{'')
                                   (lastIndexOf (body res) CHR ''}'' + 1)) of
              None \<Rightarrow> Inl SyntaxError
            | Some json \<Rightarrow>
                if nullish json then Inl TypeError
                else if truthy (lookup json ''table'')
                then Inr (JObj [(''data'', json), (''msg'', JStr ''ok'')])
                else Inr (JObj [(''data'', JNull),
                                (''msg'', JStr ''Invalid query or empty response'')]),
            [base @ ''/gviz/tq?sheet='' @ s @ ''&tq='' @ q])"
    using fetchJSON_response[OF assms(1-5)] assms(6) by simp
next
  fix pre mid post
  assume "body res = pre @ CHR ''{'' # mid @ CHR ''}'' # post
            \<and> CHR ''{'' \<notin> set pre \<and> CHR ''}'' \<notin> set post"
  then show "js_slice (body res) (indexOf (body res) CHR ''{'')
               (lastIndexOf (body res) CHR ''}'' + 1) = CHR ''{'' # mid @ ''}''"
    using slice_first_last[of "body res" pre mid post] by blast
qed

theorem fetchJSON_success_response_witness:
  "\<not> nullish (JObj [])
   \<and> parseURL ''https://docs.google.com/spreadsheets/d/1X50-cs/edit?usp=sharing''
       = Inr ''https://docs.google.com/spreadsheets/d/1X50-cs''
   \<and> encode sample_env (default_to (lookup (JObj []) ''sheet'') (JStr ''Sheet1'')) = Inr ''Sheet1''
   \<and> encode sample_env (default_to (lookup (JObj []) ''query'') (JStr ''SELECT *'')) = Inr ''SELECT%20*''
   \<and> network sample_env (''https://docs.google.com/spreadsheets/d/1X50-cs'' @ ''/gviz/tq?sheet=''
          @ ''Sheet1'' @ ''&tq='' @ ''SELECT%20*'')
       = Some \<lparr> ok = True, status = 200, statusText = ''OK'',
                body = sample_body \<rparr>
   \<and> fetchJSON sample_env ''https://docs.google.com/spreadsheets/d/1X50-cs/edit?usp=sharing'' (JObj [])
       = (Inr (JObj [(''data'', sample_json), (''msg'', JStr ''ok'')]),
          [''https://docs.google.com/spreadsheets/d/1X50-cs/gviz/tq?sheet=Sheet1&tq=SELECT%20*''])
   \<and> js_slice sample_body
        (indexOf sample_body CHR ''{'')
        (lastIndexOf sample_body CHR ''}'' + 1)
       = sample_text"
proof -
  let ?res = "\<lparr> ok = True, status = 200, statusText = ''OK'',
                body = sample_body \<rparr>"
  have h1: "\<not> nullish (JObj [])" by simp
  have h2: "parseURL ''https://docs.google.com/spreadsheets/d/1X50-cs/edit?usp=sharing''
       = Inr ''https://docs.google.com/spreadsheets/d/1X50-cs''"
    by (simp add: parseURL_def)
  have h3: "encode sample_env (default_to (lookup (JObj []) ''sheet'') (JStr ''Sheet1'')) = Inr ''Sheet1''"
    by code_simp
  have h4: "encode sample_env (default_to (lookup (JObj []) ''query'') (JStr ''SELECT *'')) = Inr ''SELECT%20*''"
    by code_simp
  have h5: "network sample_env (''https://docs.google.com/spreadsheets/d/1X50-cs'' @ ''/gviz/tq?sheet=''
          @ ''Sheet1'' @ ''&tq='' @ ''SELECT%20*'') = Some ?res"
    by (simp add: sample_env_def)
  have h6: "ok ?res" by simp
  have t: "truthy (lookup sample_json ''table'')" "\<not> nullish sample_json"
    by (simp_all add: sample_json_def)
  note w = fetchJSON_success_response[OF h1 h2 h3 h4 h5 h6]
  from w have a: "fetchJSON sample_env ''https://docs.google.com/spreadsheets/d/1X50-cs/edit?usp=sharing'' (JObj [])
       = (Inr (JObj [(''data'', sample_json), (''msg'', JStr ''ok'')]),
          [''https://docs.google.com/spreadsheets/d/1X50-cs/gviz/tq?sheet=Sheet1&tq=SELECT%20*''])"
    by (simp add: sample_slice sample_parse t)
  from h1 h2 h3 h4 h5 a sample_slice show ?thesis by blast
qed

text \<open>
  C2 (as the sentence states it, refuted). The claim returns \<open>{ data: parsedObject,
  msg: "ok" }\<close> for every parsed object that has a \<open>table\<close> field. The source tests
  \<open>!json.table\<close>: an object whose \<open>table\<close> field is \<open>null\<close> has the field and is reported
  as an invalid query all the same.
\<close>

theorem fetchJSON_null_table_counterexample:
  \<open>js_slice ''/*O_o*/ google.visualization.Query.setResponse({"table":null});''
      (indexOf ''/*O_o*/ google.visualization.Query.setResponse({"table":null});'' CHR ''{'')
      (lastIndexOf ''/*O_o*/ google.visualization.Query.setResponse({"table":null});'' CHR ''}'' + 1)
     = ''{"table":null}''
   \<and> JSON_parse sample_env ''{"table":null}'' = Some (JObj [(''table'', JNull)])
   \<and> map_of [(''table'', JNull)] ''table'' = Some JNull
   \<and> fetchJSON sample_env ''https://docs.google.com/spreadsheets/d/nulltable/edit'' (JObj [])
       = (Inr (JObj [(''data'', JNull), (''msg'', JStr ''Invalid query or empty response'')]),
          [''https://docs.google.com/spreadsheets/d/nulltable/gviz/tq?sheet=Sheet1&tq=SELECT%20*''])\<close>
  by code_simp

section \<open>Properties of get\<close>

lemma cell_value_Inr:
  assumes "cell_value row i = Inr x"
  shows "x = (if truthy (index_lookup (lookup row ''c'') i)
              then lookup (index_lookup (lookup row ''c'') i) ''v'' else JNull)"
  using assms unfolding cell_value_def get_index_def
  by (auto simp: e_bind_def get_prop_Inr_iff truthy_not_nullish split: sum.splits if_splits)

lemma nth_map2_upt:
  "i < length xs \<Longrightarrow> map2 f xs [0..<length xs] ! i = f (xs ! i) i"
  by simp













text \<open>
  C8. The guard is \<open>typeof options !== "object"\<close>, and \<open>typeof null\<close> is \<open>"object"\<close>: \<open>null\<close>
  passes it, and the destructuring in \<open>fetchJSON\<close> then raises the runtime's \<open>TypeError\<close>
  instead of the error \<open>"Options parameter must be an object"\<close>. No request is made.
\<close>

theorem get_null_options:
  "get env url JNull = (Inl TypeError, [])"
  by (simp add: get_def default_to_def fetchJSON_def)

text \<open>
  C3 (as the sentence states it, refuted). The claim lets \<open>get\<close> never throw, whatever
  body the remote returns. A success response whose body holds no JSON object (here a
  sign-in page) makes \<open>JSON.parse\<close> throw inside \<open>fetchJSON\<close>, and \<open>get\<close> catches nothing.
\<close>

theorem get_unparsable_body_counterexample:
  "parseURL ''https://docs.google.com/spreadsheets/d/private/edit''
     = Inr ''https://docs.google.com/spreadsheets/d/private''
   \<and> js_typeof (JObj []) = ''object''
   \<and> network sample_env
         ''https://docs.google.com/spreadsheets/d/private/gviz/tq?sheet=Sheet1&tq=SELECT%20*''
       = Some \<lparr> ok = True, status = 200, statusText = ''OK'',
                body = ''<html>Sign in to continue</html>'' \<rparr>
   \<and> get sample_env ''https://docs.google.com/spreadsheets/d/private/edit'' (JObj [])
       = (Inl SyntaxError,
          [''https://docs.google.com/spreadsheets/d/private/gviz/tq?sheet=Sheet1&tq=SELECT%20*''])"
  by code_simp

text \<open>
  C3 (amended). Whenever the underlying \<open>fetchJSON\<close> returns with \<open>data = null\<close> (a
  non-success HTTP status, or a parsed body whose \<open>table\<close> is absent or falsy), \<open>get\<close>
  throws nothing and returns \<open>{ cols: [], rows: [], msg }\<close> with the fetch's \<open>msg\<close>, having
  made the fetch's one request.
\<close>

theorem get_reports_null_data:
  assumes "js_typeof (default_to options (JObj [])) = ''object''"
    and "fetchJSON env url (default_to options (JObj [])) = (Inr res, log)"
    and "\<not> truthy (lookup res ''data'')"
  shows "get env url options
           = (Inr (JObj [(''cols'', JArr []), (''rows'', JArr []), (''msg'', lookup res ''msg'')]), log)"
proof -
  from fetchJSON_shape[OF assms(2)] obtain d m where
    res: "res = JObj [(''data'', d), (''msg'', JStr m)]" by blast
  with assms(3) have d: "\<not> truthy d" by simp
  show ?thesis
    using assms(1,2) d unfolding get_def res
    by (simp add: Let_def io_return_def)
qed

lemma sample_fetchJSON_gone:
  "fetchJSON sample_env ''https://docs.google.com/spreadsheets/d/gone/edit'' (JObj [])
     = (Inr (JObj [(''data'', JNull), (''msg'', JStr ''HTTP Error 404: Not Found'')]),
        [''https://docs.google.com/spreadsheets/d/gone/gviz/tq?sheet=Sheet1&tq=SELECT%20*''])"
  by code_simp

theorem get_reports_null_data_witness:
  "js_typeof (default_to (JObj []) (JObj [])) = ''object''
   \<and> fetchJSON sample_env ''https://docs.google.com/spreadsheets/d/gone/edit''
         (default_to (JObj []) (JObj []))
       = (Inr (JObj [(''data'', JNull), (''msg'', JStr ''HTTP Error 404: Not Found'')]),
          [''https://docs.google.com/spreadsheets/d/gone/gviz/tq?sheet=Sheet1&tq=SELECT%20*''])
   \<and> \<not> truthy (lookup (JObj [(''data'', JNull), (''msg'', JStr ''HTTP Error 404: Not Found'')]) ''data'')
   \<and> get sample_env ''https://docs.google.com/spreadsheets/d/gone/edit'' (JObj [])
       = (Inr (JObj [(''cols'', JArr []), (''rows'', JArr []),
                     (''msg'', JStr ''HTTP Error 404: Not Found'')]),
          [''https://docs.google.com/spreadsheets/d/gone/gviz/tq?sheet=Sheet1&tq=SELECT%20*''])"
proof -
  have d: "default_to (JObj []) (JObj []) = JObj []" by (simp add: default_to_def)
  have h1: "js_typeof (default_to (JObj []) (JObj [])) = ''object''" by (simp add: d)
  have h2: "fetchJSON sample_env ''https://docs.google.com/spreadsheets/d/gone/edit''
         (default_to (JObj []) (JObj []))
       = (Inr (JObj [(''data'', JNull), (''msg'', JStr ''HTTP Error 404: Not Found'')]),
          [''https://docs.google.com/spreadsheets/d/gone/gviz/tq?sheet=Sheet1&tq=SELECT%20*''])"
    unfolding d by (rule sample_fetchJSON_gone)
  have h3: "\<not> truthy (lookup (JObj [(''data'', JNull), (''msg'', JStr ''HTTP Error 404: Not Found'')]) ''data'')"
    by simp
  have "get sample_env ''https://docs.google.com/spreadsheets/d/gone/edit'' (JObj [])
       = (Inr (JObj [(''cols'', JArr []), (''rows'', JArr []),
                     (''msg'', JStr ''HTTP Error 404: Not Found'')]),
          [''https://docs.google.com/spreadsheets/d/gone/gviz/tq?sheet=Sheet1&tq=SELECT%20*''])"
    using get_reports_null_data[OF h1 h2 h3] by simp
  with h1 h2 h3 show ?thesis by - (intro conjI, assumption+)
qed

text \<open>The other half of the amended C3, for every host: a success response whose
  extracted text does not parse makes \<open>get\<close> throw \<open>JSON.parse\<close>'s \<open>SyntaxError\<close>, after
  the one request.\<close>

lemma get_unparsable_body:
  assumes "js_typeof options = ''object''" and "options \<noteq> JNull"
    and "parseURL url = Inr base"
    and "encode env (default_to (lookup options ''sheet'') (JStr ''Sheet1'')) = Inr s"
    and "encode env (default_to (lookup options ''query'') (JStr ''SELECT *'')) = Inr q"
    and "network env (base @ ''/gviz/tq?sheet='' @ s @ ''&tq='' @ q) = Some res"
    and "ok res"
    and "JSON_parse env (js_slice (body res) (indexOf (body res) CHR ''{'')
                           (lastIndexOf (body res) CHR ''}'' + 1)) = None"
  shows "get env url options
           = (Inl SyntaxError, [base @ ''/gviz/tq?sheet='' @ s @ ''&tq='' @ q])"
proof -
  have n: "\<not> nullish options" using assms(1,2) by (cases options) auto
  have d: "default_to options (JObj []) = options"
    using assms(1) by (cases options) (auto simp: default_to_def)
  show ?thesis
    unfolding get_def d using assms(1) fetchJSON_response[OF n assms(3-6)] assms(7,8)
    by simp
qed

text \<open>
  C10 (as the sentence states it, refuted). On the sample sheet the three files return
  three different results: \<open>dist/gsheety.js\<close> returns no \<open>msg\<close>, copies the empty label and
  lets the short row stay short; \<open>src/gsheety.js\<close> adds \<open>msg\<close> and drops every \<open>null\<close>
  cell; the current source adds \<open>columnId\<close>, the default label and pads the short row.
\<close>

theorem get_versions_differ_counterexample:
  "get_dist sample_env ''https://docs.google.com/spreadsheets/d/1X50-cs/edit?usp=sharing'' (JObj [])
     = (Inr (JObj [(''cols'', JArr
           [JObj [(''label'', JStr ''Name''), (''type'', JStr ''string'')],
            JObj [(''label'', JStr []), (''type'', JStr ''number'')],
            JObj [(''label'', JStr ''Hobby''), (''type'', JStr ''string'')]]),
          (''rows'', JArr [JArr [JStr ''Adam'', JNull, JStr ''Cycling''], JArr [JNull, JNum 25]])]),
        [''https://docs.google.com/spreadsheets/d/1X50-cs/gviz/tq?sheet=Sheet1&tq=SELECT%20*''])
   \<and> get_src sample_env ''https://docs.google.com/spreadsheets/d/1X50-cs/edit?usp=sharing'' (JObj [])
     = (Inr (JObj [(''cols'', JArr
           [JObj [(''label'', JStr ''Name''), (''type'', JStr ''string'')],
            JObj [(''label'', JStr []), (''type'', JStr ''number'')],
            JObj [(''label'', JStr ''Hobby''), (''type'', JStr ''string'')]]),
          (''rows'', JArr [JArr [JStr ''Adam'', JStr ''Cycling''], JArr [JNum 25]]),
          (''msg'', JStr ''ok'')]),
        [''https://docs.google.com/spreadsheets/d/1X50-cs/gviz/tq?sheet=Sheet1&tq=SELECT%20*''])
   \<and> get sample_env ''https://docs.google.com/spreadsheets/d/1X50-cs/edit?usp=sharing'' (JObj [])
     = (Inr (JObj [(''cols'', JArr
           [JObj [(''label'', JStr ''Name''), (''columnId'', JStr ''A''), (''type'', JStr ''string'')],
            JObj [(''label'', JStr ''Column 2''), (''columnId'', JStr ''B''), (''type'', JStr ''number'')],
            JObj [(''label'', JStr ''Hobby''), (''columnId'', JStr ''C''), (''type'', JStr ''string'')]]),
          (''rows'', JArr [JArr [JStr ''Adam'', JNull, JStr ''Cycling''], JArr [JNull, JNum 25, JNull]]),
          (''msg'', JStr ''ok'')]),
        [''https://docs.google.com/spreadsheets/d/1X50-cs/gviz/tq?sheet=Sheet1&tq=SELECT%20*''])
   \<and> get_dist sample_env ''https://docs.google.com/spreadsheets/d/1X50-cs/edit?usp=sharing'' (JObj [])
     \<noteq> get sample_env ''https://docs.google.com/spreadsheets/d/1X50-cs/edit?usp=sharing'' (JObj [])
   \<and> get_src sample_env ''https://docs.google.com/spreadsheets/d/1X50-cs/edit?usp=sharing'' (JObj [])
     \<noteq> get sample_env ''https://docs.google.com/spreadsheets/d/1X50-cs/edit?usp=sharing'' (JObj [])
   \<and> get_dist sample_env ''https://docs.google.com/spreadsheets/d/1X50-cs/edit?usp=sharing'' (JObj [])
     \<noteq> get_src sample_env ''https://docs.google.com/spreadsheets/d/1X50-cs/edit?usp=sharing'' (JObj [])"
  by code_simp

text \<open>
  C10 (amended). The three implementations of \<open>get\<close> return equal results whenever
  normalization is not reached: the options are rejected, the fetch throws, the fetch
  yields \<open>data = null\<close>, or \<open>options.raw\<close> is set.
\<close>

theorem get_versions_agree:
  assumes "js_typeof (default_to options (JObj [])) \<noteq> ''object''
           \<or> (case fst (fetchJSON env url (default_to options (JObj []))) of
                 Inl e \<Rightarrow> True
               | Inr res \<Rightarrow> \<not> truthy (lookup res ''data'')
                           \<or> truthy (lookup (default_to options (JObj [])) ''raw''))"
  shows "get_dist env url options = get env url options
         \<and> get_src env url options = get env url options"
proof (cases "js_typeof (default_to options (JObj [])) = ''object''")
  case False
  then show ?thesis by (simp add: get_def get_dist_def get_src_def)
next
  case True
  obtain r l where f: "fetchJSON env url (default_to options (JObj [])) = (r, l)"
    by (cases "fetchJSON env url (default_to options (JObj []))") auto
  show ?thesis
  proof (cases r)
    case (Inl e)
    with True f show ?thesis by (simp add: get_def get_dist_def get_src_def)
  next
    case (Inr res)
    with f have f': "fetchJSON env url (default_to options (JObj [])) = (Inr res, l)" by simp
    from fetchJSON_shape[OF f'] obtain d m where
      res: "res = JObj [(''data'', d), (''msg'', JStr m)]" by blast
    have on: "\<not> nullish (default_to options (JObj []))"
      using f' by (rule fetchJSON_Inr_options)
    from assms True f' have c: "\<not> truthy d \<or> truthy (lookup (default_to options (JObj [])) ''raw'')"
      by (simp add: res)
    show ?thesis
    proof (cases "truthy d")
      case False
      with True f' show ?thesis
        by (simp add: get_def get_dist_def get_src_def res Let_def)
    next
      case t: True
      with c have "truthy (lookup (default_to options (JObj [])) ''raw'')" by simp
      with True f' t on show ?thesis
        by (simp add: get_def get_dist_def get_src_def res Let_def truthy_not_nullish)
    qed
  qed
qed

lemma sample_get_dist_gone:
  "get_dist sample_env ''https://docs.google.com/spreadsheets/d/gone/edit'' (JObj [])
       = (Inr (JObj [(''cols'', JArr []), (''rows'', JArr []),
                     (''msg'', JStr ''HTTP Error 404: Not Found'')]),
          [''https://docs.google.com/spreadsheets/d/gone/gviz/tq?sheet=Sheet1&tq=SELECT%20*''])"
  by code_simp

theorem get_versions_agree_witness:
  "\<not> truthy (lookup (JObj [(''data'', JNull), (''msg'', JStr ''HTTP Error 404: Not Found'')]) ''data'')
   \<and> fst (fetchJSON sample_env ''https://docs.google.com/spreadsheets/d/gone/edit''
            (default_to (JObj []) (JObj [])))
       = Inr (JObj [(''data'', JNull), (''msg'', JStr ''HTTP Error 404: Not Found'')])
   \<and> get_dist sample_env ''https://docs.google.com/spreadsheets/d/gone/edit'' (JObj [])
       = (Inr (JObj [(''cols'', JArr []), (''rows'', JArr []),
                     (''msg'', JStr ''HTTP Error 404: Not Found'')]),
          [''https://docs.google.com/spreadsheets/d/gone/gviz/tq?sheet=Sheet1&tq=SELECT%20*''])
   \<and> get_dist sample_env ''https://docs.google.com/spreadsheets/d/gone/edit'' (JObj [])
       = get sample_env ''https://docs.google.com/spreadsheets/d/gone/edit'' (JObj [])
   \<and> get_src sample_env ''https://docs.google.com/spreadsheets/d/gone/edit'' (JObj [])
       = get sample_env ''https://docs.google.com/spreadsheets/d/gone/edit'' (JObj [])"
proof -
  have d: "default_to (JObj []) (JObj []) = JObj []" by (simp add: default_to_def)
  have h0: "\<not> truthy (lookup (JObj [(''data'', JNull), (''msg'', JStr ''HTTP Error 404: Not Found'')]) ''data'')"
    by simp
  have h1: "fst (fetchJSON sample_env ''https://docs.google.com/spreadsheets/d/gone/edit''
            (default_to (JObj []) (JObj [])))
       = Inr (JObj [(''data'', JNull), (''msg'', JStr ''HTTP Error 404: Not Found'')])"
    unfolding d by (simp add: sample_fetchJSON_gone)
  have h: "js_typeof (default_to (JObj []) (JObj [])) \<noteq> ''object''
           \<or> (case fst (fetchJSON sample_env ''https://docs.google.com/spreadsheets/d/gone/edit''
                          (default_to (JObj []) (JObj []))) of
                 Inl e \<Rightarrow> True
               | Inr res \<Rightarrow> \<not> truthy (lookup res ''data'')
                           \<or> truthy (lookup (default_to (JObj []) (JObj [])) ''raw''))"
    unfolding h1 by simp
  note w = get_versions_agree[OF h]
  from w have a: "get_dist sample_env ''https://docs.google.com/spreadsheets/d/gone/edit'' (JObj [])
       = get sample_env ''https://docs.google.com/spreadsheets/d/gone/edit'' (JObj [])"
    and b: "get_src sample_env ''https://docs.google.com/spreadsheets/d/gone/edit'' (JObj [])
       = get sample_env ''https://docs.google.com/spreadsheets/d/gone/edit'' (JObj [])"
    by - (erule conjunct1, erule conjunct2)
  from h0 h1 sample_get_dist_gone a b show ?thesis by - (intro conjI, assumption+)
qed

section \<open>Properties of generateTableFromOutput and getExportedData\<close>







lemma isArray_iff: "isArray v \<longleftrightarrow> (\<exists>xs. v = JArr xs)"
  by (cases v) auto

lemma lookup_nullish: "nullish v \<Longrightarrow> lookup v k = JUndef"
  by (auto simp: nullish_def)






lemma sample_generateTable:
  "fst (generateTableFromOutput sample_env
          (JObj [(''cols'', JArr [JObj [(''label'', JStr ''Name'')], JObj [(''label'', JStr ''Age'')]]),
                 (''rows'', JArr [JArr [JStr ''Adam'', JNum 23], JArr [JStr ''Ben'', JNull]]),
                 (''msg'', JStr ''ok'')])
          (JObj [(''className'', JObj [(''table'', JStr ''grid'')]),
                 (''callback'', JObj [(''theadItem'', JFun ''head''), (''tbodyItem'', JFun ''cell'')])]))
   = Inr (Element ''table'' (JStr ''grid'') JUndef
            [Element ''thead'' (JStr []) JUndef
               [Element ''tr'' (JStr []) JUndef
                  [Element ''th'' (JStr ''head'') (JStr ''Name'') [],
                   Element ''th'' (JStr ''head'') (JStr ''Age'') []]],
             Element ''tbody'' (JStr []) JUndef
               [Element ''tr'' (JStr []) JUndef
                  [Element ''td'' (JStr ''cell'') (JStr ''Adam'') [],
                   Element ''td'' (JStr ''cell'') (JNum 23) []],
                Element ''tr'' (JStr []) JUndef
                  [Element ''td'' (JStr ''cell'') (JStr ''Ben'') [],
                   Element ''td'' (JStr ''cell'') JNull []]]],
          [(''head'', Element ''th'' (JStr []) (JStr ''Name'') []),
           (''head'', Element ''th'' (JStr []) (JStr ''Age'') []),
           (''cell'', Element ''td'' (JStr []) (JStr ''Adam'') []),
           (''cell'', Element ''td'' (JStr []) (JNum 23) []),
           (''cell'', Element ''td'' (JStr []) (JStr ''Ben'') []),
           (''cell'', Element ''td'' (JStr []) JNull [])])"
  by code_simp


text \<open>
  C6. The claim is right for a type that no object has; the source looks the type up
  with \<open>formats[type]\<close>, and \<open>formats\<close> inherits the properties of \<open>Object.prototype\<close>. For
  the type \<open>"constructor"\<close>, which is none of \<open>csv\<close>, \<open>tsv\<close>, \<open>pdf\<close>, \<open>xlsx\<close>, the lookup
  gives a function, the guard \<open>!formats[type]\<close> does not fire, and a request is made to
  the canonical URL followed by the function's source text. The failure that comes back
  is the HTTP error of that request, not \<open>"Unsupported format"\<close>.
\<close>

theorem getExportedData_inherited_name:
  "''constructor'' \<notin> set [''csv'', ''tsv'', ''pdf'', ''xlsx'']
   \<and> getExportedData sample_env ''https://docs.google.com/spreadsheets/d/1X50-cs/edit?usp=sharing''
        (JStr ''constructor'')
       = (Inl (HTTPError ''HTTP Error 400: Bad Request''),
          [''https://docs.google.com/spreadsheets/d/1X50-cs/function Object() { [native code] }''])"
  by code_simp

text \<open>What holds of \<open>getExportedData\<close>: a type that \<open>formats\<close> neither has nor inherits is
  refused before any request; a supported type makes one request, whose failure is
  thrown and whose content is returned as a blob for \<open>pdf\<close> and \<open>xlsx\<close>, as text otherwise.\<close>

lemma getExportedData_unsupported:
  assumes "t \<notin> set [''csv'', ''tsv'', ''pdf'', ''xlsx'']"
    and "t \<notin> set object_proto_names" and "t \<noteq> ''__proto__''"
  shows "getExportedData env url (JStr t) = (Inl UnsupportedFormat, [])"
  using assms
  by (simp add: getExportedData_def default_to_def formats_def object_proto_def io_throw_def)

lemma getExportedData_supported:
  assumes "t \<in> set [''csv'', ''tsv'', ''pdf'', ''xlsx'']"
    and "parseURL url = Inr base"
    and "network env (base @ ''/export?format='' @ t) = Some res"
  shows "getExportedData env url (JStr t) =
           (if ok res
            then Inr (if t = ''pdf'' \<or> t = ''xlsx'' then JBlob (body res) else JStr (body res))
            else Inl (HTTPError (''HTTP Error '' @ show_nat (status res) @ '': '' @ statusText res)),
            [base @ ''/export?format='' @ t])"
  using assms
  by (auto simp: getExportedData_def default_to_def formats_def js_fetch_def io_throw_def
                 io_return_def)

end
